theory Spec2Isabelle
  imports Main
begin

section \<open>Data model\<close>

text \<open>
  The configuration document (\<^verbatim>\<open>config.json\<close>, loaded once into \<^verbatim>\<open>CONFIG\<close>) is a
  parameter of every operation. An indicator and a section are the JSON objects of the
  catalog; the order of both lists is the declaration order.
\<close>

record indicator =
  ind_id :: string
  ind_name :: string
  ind_unit :: string
  ind_derived :: bool

record cfg_section =
  sec_id :: string
  sec_name :: string
  sec_description :: string
  indicators :: "indicator list"

text \<open>
  The \<^verbatim>\<open>google_sheets\<close> object is optional, and so is each of its keys: the code reads
  \<^verbatim>\<open>enabled\<close> with \<^verbatim>\<open>.get\<close> and a default, the other two with a subscript.
\<close>

record sheets_config =
  enabled :: "bool option"
  credentials_file :: "string option"
  sheet_name :: "string option"

record config =
  app_title :: string
  active_year :: string
  communities :: "string list"
  years :: "string list"
  periods :: "string list"
  sections :: "cfg_section list"
  google_sheets :: "sheets_config option"

text \<open>
  One row of the table \<^verbatim>\<open>reports\<close>. Every column is TEXT; the primary key is
  \<^verbatim>\<open>(community, year, period, indicator_id)\<close>.
\<close>

record report_row =
  r_community :: string
  r_year :: string
  r_period :: string
  r_indicator_id :: string
  r_value :: string
  r_unit :: string
  r_last_updated :: string

type_synonym pkey = "string \<times> string \<times> string \<times> string"

definition pk :: "report_row \<Rightarrow> pkey" where
  "pk r = (r_community r, r_year r, r_period r, r_indicator_id r)"

text \<open>
  The primary-key constraint of the table: no two rows share a key. The list order of a
  table stands for the order in which SQLite yields the rows, which SQL leaves open.
\<close>

definition pk_unique :: "report_row list \<Rightarrow> bool" where
  "pk_unique tbl = distinct (map pk tbl)"

text \<open>
  Exceptions of the Python program, as values. \<open>OperationalError\<close> is what
  \<^verbatim>\<open>sqlite3\<close> raises when the database file cannot be opened or written;
  \<open>ExternalError\<close> stands for whatever the spreadsheet client raises.
\<close>

datatype error =
    OperationalError
  | TypeError
  | IndexError
  | KeyError
  | ImportError
  | ExternalError string

text \<open>
  What the third-party calls inside \<^verbatim>\<open>_run_sync\<close> do is not the program's: each one
  either returns or raises, as the environment decides.
\<close>

record sync_env =
  import_raises :: "error option"
  keyfile_raises :: "error option"
  authorize_raises :: "error option"
  open_raises :: "error option"
  create_raises :: "error option"
  clear_raises :: "error option"
  update_raises :: "error option"

text \<open>The two lines \<^verbatim>\<open>_run_sync\<close> can print.\<close>

datatype sync_log = SyncComplete | SyncError error

text \<open>
  The state the program runs against: the table, whether the database file is reachable,
  the number of background sync threads started so far, how the spreadsheet service
  answers a sync, and the lines the syncs have printed.
\<close>

record world =
  reports :: "report_row list"
  db_available :: bool
  sync_threads :: nat
  sheets_api :: sync_env
  printed :: "sync_log list"

section \<open>Database engine\<close>

definition get_db_connection :: "world \<Rightarrow> error + report_row list" where
  "get_db_connection w = (if db_available w then Inr (reports w) else Inl OperationalError)"

section \<open>Spreadsheet sync\<close>

definition raising :: "error option \<Rightarrow> (error + 'a) \<Rightarrow> error + 'a" where
  "raising r k = (case r of Some e \<Rightarrow> Inl e | None \<Rightarrow> k)"

definition subscript :: "'a option \<Rightarrow> error + 'a" where
  "subscript v = (case v of None \<Rightarrow> Inl KeyError | Some x \<Rightarrow> Inr x)"

text \<open>
  The body of the \<^verbatim>\<open>try\<close> block of \<^verbatim>\<open>_run_sync\<close>. On success it yields the rows sent
  to the sheet (the whole table). The inner bare \<^verbatim>\<open>except\<close> turns any failure of
  \<^verbatim>\<open>client.open\<close> into a call of \<^verbatim>\<open>client.create\<close>.
\<close>

definition sync_body :: "config \<Rightarrow> world \<Rightarrow> sync_env \<Rightarrow> error + report_row list" where
  "sync_body cfg w env =
     raising (import_raises env)
       (case get_db_connection w of
          Inl e \<Rightarrow> Inl e
        | Inr df \<Rightarrow>
            (case subscript (google_sheets cfg) of
               Inl e \<Rightarrow> Inl e
             | Inr gs \<Rightarrow>
                 (case subscript (credentials_file gs) of
                    Inl e \<Rightarrow> Inl e
                  | Inr creds_file \<Rightarrow>
                      (case subscript (sheet_name gs) of
                         Inl e \<Rightarrow> Inl e
                       | Inr name \<Rightarrow>
                           raising (keyfile_raises env)
                             (raising (authorize_raises env)
                                (raising
                                   (case open_raises env of
                                      None \<Rightarrow> None
                                    | Some _ \<Rightarrow> create_raises env)
                                   (raising (clear_raises env)
                                      (raising (update_raises env) (Inr df)))))))))"

text \<open>
  \<^verbatim>\<open>_run_sync\<close>: the body under \<^verbatim>\<open>try\<close>, its completion line after it, and the
  handler \<^verbatim>\<open>except Exception as e\<close>, which prints the error line and returns. Every
  \<open>error\<close> of this theory is a subclass of \<^verbatim>\<open>Exception\<close>, and printing is taken
  to succeed. The result is what the call raised, if anything, and the state it leaves.
\<close>

definition run_sync :: "config \<Rightarrow> world \<Rightarrow> (error + unit) \<times> world" where
  "run_sync cfg w =
     (case sync_body cfg w (sheets_api w) of
        Inr _ \<Rightarrow> (Inr (), w\<lparr>printed := printed w @ [SyncComplete]\<rparr>)
      | Inl e \<Rightarrow> (Inr (), w\<lparr>printed := printed w @ [SyncError e]\<rparr>))"

text \<open>
  \<^verbatim>\<open>threading.Thread(target=...)\<close> followed by \<^verbatim>\<open>thread.start()\<close>: the target runs
  on a thread of its own, and what it raises, if anything, ends that thread and never
  reaches the caller. The thread is taken to start, and is run here to its end at the point
  where it is started.
\<close>

definition thread_start :: "(world \<Rightarrow> (error + unit) \<times> world) \<Rightarrow> world \<Rightarrow> world" where
  "thread_start target w = (snd (target w))\<lparr>sync_threads := Suc (sync_threads w)\<rparr>"

text \<open>
  \<^verbatim>\<open>sync_to_google_background\<close> returns at once unless
  \<^verbatim>\<open>CONFIG.get("google_sheets", {}).get("enabled", False)\<close> is true; otherwise it starts
  one thread running \<^verbatim>\<open>_run_sync\<close>.
\<close>

definition sheets_enabled :: "config \<Rightarrow> bool" where
  "sheets_enabled cfg =
     (case google_sheets cfg of
        None \<Rightarrow> False
      | Some gs \<Rightarrow> (case enabled gs of None \<Rightarrow> False | Some b \<Rightarrow> b))"

definition sync_to_google_background :: "config \<Rightarrow> world \<Rightarrow> world" where
  "sync_to_google_background cfg w =
     (if \<not> sheets_enabled cfg then w
      else thread_start (run_sync cfg) w)"

section \<open>Data operations\<close>

definition get_value_sql :: "world \<Rightarrow> string \<Rightarrow> string \<Rightarrow> string \<Rightarrow> string \<Rightarrow> error + string" where
  "get_value_sql w community year period indicator_id =
     (case get_db_connection w of
        Inl e \<Rightarrow> Inl e
      | Inr conn \<Rightarrow>
          (case find (\<lambda>r. pk r = (community, year, period, indicator_id)) conn of
             Some row \<Rightarrow> Inr (r_value row)
           | None \<Rightarrow> Inr ''''))"

text \<open>
  \<^verbatim>\<open>INSERT ... ON CONFLICT(community, year, period, indicator_id) DO UPDATE SET
  value=excluded.value, unit=excluded.unit, last_updated=excluded.last_updated\<close>:
  the row with the same key keeps its place and its key and takes the three new
  columns; with no such row the new one is added.
\<close>

fun insert_on_conflict :: "report_row \<Rightarrow> report_row list \<Rightarrow> report_row list" where
  "insert_on_conflict new [] = [new]"
| "insert_on_conflict new (old # tbl) =
     (if pk old = pk new
      then old\<lparr>r_value := r_value new, r_unit := r_unit new,
               r_last_updated := r_last_updated new\<rparr> # tbl
      else old # insert_on_conflict new tbl)"

text \<open>
  \<^verbatim>\<open>upsert_value_sql\<close>; \<open>now\<close> is the formatted wall-clock time. The result is what the
  call raised, if anything, and the state it leaves.
\<close>

definition upsert_value_sql ::
  "config \<Rightarrow> world \<Rightarrow> string \<Rightarrow> string \<Rightarrow> string \<Rightarrow> string \<Rightarrow> string \<Rightarrow> string \<Rightarrow> string
     \<Rightarrow> (error + unit) \<times> world" where
  "upsert_value_sql cfg w now community year period indicator_id val unit =
     (if year \<noteq> active_year cfg then (Inr (), w)
      else
        (case get_db_connection w of
           Inl e \<Rightarrow> (Inl e, w)
         | Inr conn \<Rightarrow>
             (Inr (),
              sync_to_google_background cfg
                (w\<lparr>reports :=
                     insert_on_conflict
                       \<lparr>r_community = community, r_year = year, r_period = period,
                        r_indicator_id = indicator_id, r_value = val, r_unit = unit,
                        r_last_updated = now\<rparr> conn\<rparr>))))"

section \<open>Routes\<close>

text \<open>
  \<^verbatim>\<open>next((s for s in CONFIG["sections"] if s["id"] == section_id), CONFIG["sections"][0])\<close>:
  the default is evaluated before the search, so an empty catalog raises.
\<close>

definition select_section :: "config \<Rightarrow> string \<Rightarrow> error + cfg_section" where
  "select_section cfg section_id =
     (case sections cfg of
        [] \<Rightarrow> Inl IndexError
      | s0 # _ \<Rightarrow>
          (case find (\<lambda>s. sec_id s = section_id) (sections cfg) of
             Some s \<Rightarrow> Inr s
           | None \<Rightarrow> Inr s0))"

text \<open>The context handed to the row template by \<^verbatim>\<open>save\<close>.\<close>

record row_item =
  item_id :: string
  item_name :: string
  item_unit :: string
  item_derived :: bool
  item_value :: string

record row_context =
  ctx_ind :: row_item
  ctx_community :: string
  ctx_year :: string
  ctx_period :: string
  ctx_section_id :: string
  ctx_editable :: bool
  ctx_saved :: bool

text \<open>
  \<^verbatim>\<open>save\<close>. \<^verbatim>\<open>dict(ind_def)\<close> raises \<^verbatim>\<open>TypeError\<close> when the search for the indicator
  gave \<^verbatim>\<open>None\<close>; by then the upsert has run.
\<close>

definition save ::
  "config \<Rightarrow> world \<Rightarrow> string \<Rightarrow> string \<Rightarrow> string \<Rightarrow> string \<Rightarrow> string \<Rightarrow> string \<Rightarrow> string \<Rightarrow> string
     \<Rightarrow> (error + row_context) \<times> world" where
  "save cfg w now community year period section_id indicator_id val unit =
     (case upsert_value_sql cfg w now community year period indicator_id val unit of
        (Inl e, w') \<Rightarrow> (Inl e, w')
      | (Inr _, w') \<Rightarrow>
          (case select_section cfg section_id of
             Inl e \<Rightarrow> (Inl e, w')
           | Inr section \<Rightarrow>
               (case find (\<lambda>i. ind_id i = indicator_id) (indicators section) of
                  None \<Rightarrow> (Inl TypeError, w')
                | Some ind_def \<Rightarrow>
                    (Inr \<lparr>ctx_ind =
                            \<lparr>item_id = ind_id ind_def, item_name = ind_name ind_def,
                             item_unit = ind_unit ind_def, item_derived = ind_derived ind_def,
                             item_value = val\<rparr>,
                          ctx_community = community, ctx_year = year, ctx_period = period,
                          ctx_section_id = section_id, ctx_editable = True,
                          ctx_saved = True\<rparr>,
                     w'))))"

text \<open>The rows \<^verbatim>\<open>review\<close> hands to its template.\<close>

record display_row =
  d_name :: string
  d_value :: string
  d_unit :: string

definition scan :: "report_row list \<Rightarrow> string \<Rightarrow> string \<Rightarrow> string \<Rightarrow> report_row list" where
  "scan conn community year period =
     filter (\<lambda>r. r_community r = community \<and> r_year r = year \<and> r_period r = period) conn"

text \<open>\<^verbatim>\<open>{row['indicator_id']: row for row in rows_sql}\<close>: a later row replaces an earlier one.\<close>

definition data_map_of :: "report_row list \<Rightarrow> string \<rightharpoonup> report_row" where
  "data_map_of rows_sql = foldl (\<lambda>m row. m(r_indicator_id row \<mapsto> row)) Map.empty rows_sql"

definition display_rows_of :: "config \<Rightarrow> (string \<rightharpoonup> report_row) \<Rightarrow> display_row list" where
  "display_rows_of cfg data_map =
     concat (map (\<lambda>section.
       concat (map (\<lambda>ind.
         (case data_map (ind_id ind) of
            None \<Rightarrow> []
          | Some row \<Rightarrow>
              (if r_value row \<noteq> ''''
               then [\<lparr>d_name = ind_name ind, d_value = r_value row, d_unit = ind_unit ind\<rparr>]
               else [])))
         (indicators section)))
       (sections cfg))"

definition review :: "config \<Rightarrow> world \<Rightarrow> string \<Rightarrow> string \<Rightarrow> string \<Rightarrow> error + display_row list" where
  "review cfg w community year period =
     (case get_db_connection w of
        Inl e \<Rightarrow> Inl e
      | Inr conn \<Rightarrow> Inr (display_rows_of cfg (data_map_of (scan conn community year period))))"





section \<open>Example data\<close>

text \<open>
  A small catalog with two sections, the sync switched off, and active year 2024; the same
  catalog with the sync switched on; a spreadsheet service that answers every call and one
  that refuses the credentials; and four states of the store.
\<close>

definition example_config :: config where
  "example_config =
     \<lparr>app_title = ''GOYN'', active_year = ''2024'', communities = [''Acme''],
      years = [''2023'', ''2024''], periods = [''Annual Total''],
      sections =
        [\<lparr>sec_id = ''pop'', sec_name = ''Population'', sec_description = ''Head counts'',
          indicators =
            [\<lparr>ind_id = ''pop_male'', ind_name = ''Male'', ind_unit = ''count'',
              ind_derived = False\<rparr>,
             \<lparr>ind_id = ''pop_total'', ind_name = ''Total'', ind_unit = ''count'',
              ind_derived = True\<rparr>]\<rparr>,
         \<lparr>sec_id = ''edu'', sec_name = ''Education'', sec_description = ''Schooling'',
          indicators =
            [\<lparr>ind_id = ''edu_note'', ind_name = ''Remarks'', ind_unit = ''Text'',
              ind_derived = False\<rparr>]\<rparr>],
      google_sheets = None\<rparr>"

definition synced_config :: config where
  "synced_config =
     example_config
       \<lparr>google_sheets :=
          Some \<lparr>enabled = Some True, credentials_file = Some ''creds.json'',
                sheet_name = Some ''GOYN''\<rparr>\<rparr>"

definition sheets_ok :: sync_env where
  "sheets_ok =
     \<lparr>import_raises = None, keyfile_raises = None, authorize_raises = None,
      open_raises = None, create_raises = None, clear_raises = None, update_raises = None\<rparr>"

definition sheets_refusing :: sync_env where
  "sheets_refusing = sheets_ok\<lparr>authorize_raises := Some (ExternalError ''invalid_grant'')\<rparr>"

definition empty_world :: world where
  "empty_world =
     \<lparr>reports = [], db_available = True, sync_threads = 0, sheets_api = sheets_ok,
      printed = []\<rparr>"

definition refused_world :: world where
  "refused_world = empty_world\<lparr>sheets_api := sheets_refusing\<rparr>"

definition history_world :: world where
  "history_world =
     \<lparr>reports =
        [\<lparr>r_community = ''Acme'', r_year = ''2023'', r_period = ''Annual Total'',
          r_indicator_id = ''pop_male'', r_value = ''5'', r_unit = ''count'',
          r_last_updated = ''2023-12-31 10:00:00''\<rparr>],
      db_available = True, sync_threads = 0, sheets_api = sheets_ok, printed = []\<rparr>"

definition filled_world :: world where
  "filled_world =
     \<lparr>reports =
        [\<lparr>r_community = ''Acme'', r_year = ''2024'', r_period = ''Annual Total'',
          r_indicator_id = ''edu_note'', r_value = ''ok'', r_unit = ''Text'',
          r_last_updated = ''2024-03-01 09:00:00''\<rparr>,
         \<lparr>r_community = ''Acme'', r_year = ''2024'', r_period = ''Annual Total'',
          r_indicator_id = ''pop_total'', r_value = '''', r_unit = ''count'',
          r_last_updated = ''2024-03-01 09:00:05''\<rparr>,
         \<lparr>r_community = ''Acme'', r_year = ''2024'', r_period = ''Annual Total'',
          r_indicator_id = ''pop_male'', r_value = ''10'', r_unit = ''persons'',
          r_last_updated = ''2024-03-01 09:00:09''\<rparr>,
         \<lparr>r_community = ''Borough'', r_year = ''2024'', r_period = ''Annual Total'',
          r_indicator_id = ''pop_male'', r_value = ''3'', r_unit = ''count'',
          r_last_updated = ''2024-03-02 08:00:00''\<rparr>,
         \<lparr>r_community = ''Acme'', r_year = ''2024'', r_period = ''Annual Total'',
          r_indicator_id = ''retired'', r_value = ''1'', r_unit = ''count'',
          r_last_updated = ''2024-03-02 08:30:00''\<rparr>],
      db_available = True, sync_threads = 0, sheets_api = sheets_ok, printed = []\<rparr>"

section \<open>The upsert statement\<close>

lemma pk_update [simp]:
  "pk (old\<lparr>r_value := a, r_unit := b, r_last_updated := c\<rparr>) = pk old"
  by (simp add: pk_def)

lemma find_insert_on_conflict:
  "\<exists>r. find (\<lambda>r. pk r = pk new) (insert_on_conflict new tbl) = Some r
       \<and> r_value r = r_value new \<and> r_unit r = r_unit new
       \<and> r_last_updated r = r_last_updated new"
  by (induction tbl) auto

lemma filter_insert_on_conflict_other:
  "k \<noteq> pk new \<Longrightarrow>
   filter (\<lambda>r. pk r = k) (insert_on_conflict new tbl) = filter (\<lambda>r. pk r = k) tbl"
  by (induction tbl) auto

lemma map_pk_insert_on_conflict:
  "map pk (insert_on_conflict new tbl) =
     (if pk new \<in> set (map pk tbl) then map pk tbl else map pk tbl @ [pk new])"
  by (induction tbl) auto

lemma pk_unique_insert_on_conflict:
  "pk_unique tbl \<Longrightarrow> pk_unique (insert_on_conflict new tbl)"
  by (simp add: pk_unique_def map_pk_insert_on_conflict)

lemma filter_insert_on_conflict_same:
  "pk_unique tbl \<Longrightarrow>
   filter (\<lambda>r. pk r = pk new) (insert_on_conflict new tbl) = [new]"
proof (induction tbl)
  case Nil
  then show ?case by simp
next
  case (Cons old tbl)
  show ?case
  proof (cases "pk old = pk new")
    case True
    from Cons.prems have "pk old \<notin> pk ` set tbl"
      by (simp add: pk_unique_def)
    then have "\<forall>r \<in> set tbl. pk r \<noteq> pk old"
      by (metis imageI)
    with True have "\<forall>r \<in> set tbl. pk r \<noteq> pk new"
      by simp
    then have none: "filter (\<lambda>r. pk r = pk new) tbl = []"
      by (simp add: filter_empty_conv)
    from True have "old\<lparr>r_value := r_value new, r_unit := r_unit new,
        r_last_updated := r_last_updated new\<rparr> = new"
      by (simp add: pk_def)
    with True none show ?thesis by simp
  next
    case False
    with Cons show ?thesis by (simp add: pk_unique_def)
  qed
qed

lemma run_sync_keeps_store:
  "reports (snd (run_sync cfg w)) = reports w"
  "db_available (snd (run_sync cfg w)) = db_available w"
  "sync_threads (snd (run_sync cfg w)) = sync_threads w"
  "sheets_api (snd (run_sync cfg w)) = sheets_api w"
  by (simp_all add: run_sync_def split: sum.splits)

lemma sync_keeps_store [simp]:
  "reports (sync_to_google_background cfg w) = reports w"
  "db_available (sync_to_google_background cfg w) = db_available w"
  by (simp_all add: sync_to_google_background_def thread_start_def run_sync_keeps_store)

lemma reports_upsert:
  "reports (snd (upsert_value_sql cfg w now c y p i v u)) =
     (if y = active_year cfg \<and> db_available w
      then insert_on_conflict
             \<lparr>r_community = c, r_year = y, r_period = p, r_indicator_id = i,
              r_value = v, r_unit = u, r_last_updated = now\<rparr> (reports w)
      else reports w)"
  by (simp add: upsert_value_sql_def get_db_connection_def)

lemma db_available_upsert [simp]:
  "db_available (snd (upsert_value_sql cfg w now c y p i v u)) = db_available w"
  by (simp add: upsert_value_sql_def get_db_connection_def)

lemma fst_upsert:
  "fst (upsert_value_sql cfg w now c y p i v u) =
     (if y = active_year cfg \<and> \<not> db_available w then Inl OperationalError else Inr ())"
  by (simp add: upsert_value_sql_def get_db_connection_def)

text \<open>The primary-key constraint holds of the empty table and survives every upsert.\<close>

lemma pk_unique_empty: "pk_unique []"
  by (simp add: pk_unique_def)

lemma pk_unique_upsert:
  "pk_unique (reports w) \<Longrightarrow>
   pk_unique (reports (snd (upsert_value_sql cfg w now c y p i v u)))"
  by (simp add: reports_upsert pk_unique_insert_on_conflict)

section \<open>Report store\<close>

text \<open>
  Claim C1. With the database reachable and \<open>year\<close> equal to the active year of the
  configuration, \<open>upsert_value_sql\<close> raises nothing, and \<open>get_value_sql\<close> on the state
  it leaves, with the same community, year, period and indicator id, returns exactly the
  value written.
\<close>

theorem upsert_then_get:
  assumes "year = active_year cfg" and "db_available w"
  shows "fst (upsert_value_sql cfg w now community year period indicator_id val unit) = Inr ()
       \<and> get_value_sql (snd (upsert_value_sql cfg w now community year period indicator_id val unit))
           community year period indicator_id = Inr val"
proof -
  let ?new = "\<lparr>r_community = community, r_year = year, r_period = period,
                r_indicator_id = indicator_id, r_value = val, r_unit = unit,
                r_last_updated = now\<rparr>"
  have k: "pk ?new = (community, year, period, indicator_id)"
    by (simp add: pk_def)
  obtain r where "find (\<lambda>r. pk r = pk ?new) (insert_on_conflict ?new (reports w)) = Some r"
    and "r_value r = val"
    using find_insert_on_conflict [of ?new "reports w"] by auto
  with assms k show ?thesis
    by (simp add: fst_upsert get_value_sql_def get_db_connection_def reports_upsert)
qed

theorem upsert_then_get_witness:
  "''2024'' = active_year example_config \<and> db_available empty_world
   \<and> fst (upsert_value_sql example_config empty_world ''2024-06-01 12:00:00''
            ''Acme'' ''2024'' ''Annual Total'' ''pop_male'' ''10'' ''count'') = Inr ()
   \<and> get_value_sql
         (snd (upsert_value_sql example_config empty_world ''2024-06-01 12:00:00''
                 ''Acme'' ''2024'' ''Annual Total'' ''pop_male'' ''10'' ''count''))
         ''Acme'' ''2024'' ''Annual Total'' ''pop_male'' = Inr ''10''"
  using upsert_then_get [of "''2024''" example_config empty_world "''2024-06-01 12:00:00''"
      "''Acme''" "''Annual Total''" "''pop_male''" "''10''" "''count''"]
  by (simp add: example_config_def empty_world_def)

text \<open>
  Claim C2. When \<open>year\<close> differs from the active year, \<open>upsert_value_sql\<close> raises
  nothing and returns the state it was given, whether or not the database is reachable: no
  row is created or changed. A following \<open>get_value_sql\<close> with the same key gives what
  it gave before the call, and that is the empty string when the database is reachable
  and holds no row with this key.
\<close>

theorem upsert_other_year_noop:
  assumes "year \<noteq> active_year cfg"
  shows "upsert_value_sql cfg w now community year period indicator_id val unit = (Inr (), w)
       \<and> get_value_sql (snd (upsert_value_sql cfg w now community year period indicator_id val unit))
           community year period indicator_id
         = get_value_sql w community year period indicator_id
       \<and> (db_available w
            \<and> (community, year, period, indicator_id) \<notin> set (map pk (reports w))
          \<longrightarrow> get_value_sql
                (snd (upsert_value_sql cfg w now community year period indicator_id val unit))
                community year period indicator_id = Inr '''')"
proof -
  from assms
  have noop: "upsert_value_sql cfg w now community year period indicator_id val unit = (Inr (), w)"
    by (simp add: upsert_value_sql_def)
  have "find (\<lambda>r. pk r = (community, year, period, indicator_id)) (reports w) = None"
    if "(community, year, period, indicator_id) \<notin> set (map pk (reports w))"
    using that by (force simp: find_None_iff)
  then show ?thesis
    by (simp add: noop get_value_sql_def get_db_connection_def)
qed

theorem upsert_other_year_noop_witness:
  "''2023'' \<noteq> active_year example_config
   \<and> upsert_value_sql example_config history_world ''2024-06-01 12:00:00''
        ''Acme'' ''2023'' ''Annual Total'' ''pop_male'' ''9'' ''count'' = (Inr (), history_world)
   \<and> get_value_sql
        (snd (upsert_value_sql example_config history_world ''2024-06-01 12:00:00''
                ''Acme'' ''2023'' ''Annual Total'' ''pop_male'' ''9'' ''count''))
        ''Acme'' ''2023'' ''Annual Total'' ''pop_male'' = Inr ''5''
   \<and> db_available history_world
   \<and> (''Acme'', ''2023'', ''Annual Total'', ''pop_total'')
         \<notin> set (map pk (reports history_world))
   \<and> get_value_sql
        (snd (upsert_value_sql example_config history_world ''2024-06-01 12:00:00''
                ''Acme'' ''2023'' ''Annual Total'' ''pop_total'' ''9'' ''count''))
        ''Acme'' ''2023'' ''Annual Total'' ''pop_total'' = Inr ''''"
  using upsert_other_year_noop [of "''2023''" example_config history_world
      "''2024-06-01 12:00:00''" "''Acme''" "''Annual Total''" "''pop_male''" "''9''" "''count''"]
    upsert_other_year_noop [of "''2023''" example_config history_world
      "''2024-06-01 12:00:00''" "''Acme''" "''Annual Total''" "''pop_total''" "''9''" "''count''"]
  by (simp add: example_config_def history_world_def pk_def get_value_sql_def
      get_db_connection_def)

text \<open>
  Claim C7. With the database reachable, \<open>get_value_sql\<close> on a key that no row of the
  table has returns the empty string: a string, not an error and not a null.
\<close>

theorem get_absent_is_empty:
  assumes "db_available w"
    and "(community, year, period, indicator_id) \<notin> set (map pk (reports w))"
  shows "get_value_sql w community year period indicator_id = Inr ''''"
proof -
  from assms(2)
  have "find (\<lambda>r. pk r = (community, year, period, indicator_id)) (reports w) = None"
    by (force simp: find_None_iff)
  with assms(1) show ?thesis
    by (simp add: get_value_sql_def get_db_connection_def)
qed

theorem get_absent_is_empty_witness:
  "db_available history_world
   \<and> (''Acme'', ''2023'', ''Annual Total'', ''pop_total'')
         \<notin> set (map pk (reports history_world))
   \<and> get_value_sql history_world ''Acme'' ''2023'' ''Annual Total'' ''pop_total'' = Inr ''''"
  using get_absent_is_empty [of history_world "''Acme''" "''2023''" "''Annual Total''"
      "''pop_total''"]
  by (simp add: history_world_def pk_def)

text \<open>
  Claim C5. In the active year, with the database reachable and a table that satisfies
  its primary-key constraint, two upserts to the same key leave exactly one row with that
  key: the row of the second write, with its value, its unit and its timestamp.
\<close>

theorem upsert_twice_overwrites:
  assumes "year = active_year cfg" and "db_available w" and "pk_unique (reports w)"
  shows "filter (\<lambda>r. pk r = (community, year, period, indicator_id))
           (reports
              (snd (upsert_value_sql cfg
                      (snd (upsert_value_sql cfg w now1 community year period indicator_id v1 u1))
                      now2 community year period indicator_id v2 u2)))
         = [\<lparr>r_community = community, r_year = year, r_period = period,
             r_indicator_id = indicator_id, r_value = v2, r_unit = u2,
             r_last_updated = now2\<rparr>]"
proof -
  let ?w1 = "snd (upsert_value_sql cfg w now1 community year period indicator_id v1 u1)"
  let ?new = "\<lparr>r_community = community, r_year = year, r_period = period,
                r_indicator_id = indicator_id, r_value = v2, r_unit = u2,
                r_last_updated = now2\<rparr>"
  have k: "pk ?new = (community, year, period, indicator_id)"
    by (simp add: pk_def)
  from assms(3) have "pk_unique (reports ?w1)"
    by (rule pk_unique_upsert)
  then have "filter (\<lambda>r. pk r = pk ?new) (insert_on_conflict ?new (reports ?w1)) = [?new]"
    by (rule filter_insert_on_conflict_same)
  moreover have "reports (snd (upsert_value_sql cfg ?w1 now2 community year period
      indicator_id v2 u2)) = insert_on_conflict ?new (reports ?w1)"
    using assms(1) [symmetric] assms(2) by (simp add: reports_upsert [of cfg ?w1])
  ultimately show ?thesis
    by (simp only: k)
qed

theorem upsert_twice_overwrites_witness:
  "''2024'' = active_year example_config \<and> db_available filled_world
   \<and> pk_unique (reports filled_world)
   \<and> filter (\<lambda>r. pk r = (''Acme'', ''2024'', ''Annual Total'', ''pop_male''))
        (reports
           (snd (upsert_value_sql example_config
                   (snd (upsert_value_sql example_config filled_world ''2024-06-01 12:00:00''
                           ''Acme'' ''2024'' ''Annual Total'' ''pop_male'' ''11'' ''count''))
                   ''2024-06-01 12:00:07'' ''Acme'' ''2024'' ''Annual Total'' ''pop_male''
                   ''12'' ''persons'')))
      = [\<lparr>r_community = ''Acme'', r_year = ''2024'', r_period = ''Annual Total'',
          r_indicator_id = ''pop_male'', r_value = ''12'', r_unit = ''persons'',
          r_last_updated = ''2024-06-01 12:00:07''\<rparr>]"
  using upsert_twice_overwrites [of "''2024''" example_config filled_world "''Acme''"
      "''Annual Total''" "''pop_male''" "''2024-06-01 12:00:00''" "''11''" "''count''"
      "''2024-06-01 12:00:07''" "''12''" "''persons''"]
  by (simp add: example_config_def filled_world_def pk_unique_def pk_def)

text \<open>
  Claim C6. Whatever an upsert to a key does (write, silent rejection, or failure on an
  unreachable database), the rows with any other key are afterwards exactly what they were
  before, and no row changes its key: the keys of the table stay as they were, or the
  upsert's own key is added at the end.
\<close>

theorem upsert_frame:
  assumes "k' \<noteq> (community, year, period, indicator_id)"
  shows "filter (\<lambda>r. pk r = k')
           (reports (snd (upsert_value_sql cfg w now community year period indicator_id val unit)))
         = filter (\<lambda>r. pk r = k') (reports w)
       \<and> (map pk (reports (snd (upsert_value_sql cfg w now community year period indicator_id
                                   val unit)))
            = map pk (reports w)
          \<or> map pk (reports (snd (upsert_value_sql cfg w now community year period indicator_id
                                     val unit)))
            = map pk (reports w) @ [(community, year, period, indicator_id)])"
proof -
  let ?new = "\<lparr>r_community = community, r_year = year, r_period = period,
                r_indicator_id = indicator_id, r_value = val, r_unit = unit,
                r_last_updated = now\<rparr>"
  have k: "pk ?new = (community, year, period, indicator_id)"
    by (simp add: pk_def)
  with assms have "k' \<noteq> pk ?new" by simp
  then have "filter (\<lambda>r. pk r = k') (insert_on_conflict ?new (reports w))
      = filter (\<lambda>r. pk r = k') (reports w)"
    by (rule filter_insert_on_conflict_other)
  moreover have "map pk (insert_on_conflict ?new (reports w)) = map pk (reports w)
      \<or> map pk (insert_on_conflict ?new (reports w))
          = map pk (reports w) @ [(community, year, period, indicator_id)]"
    using k by (simp add: map_pk_insert_on_conflict)
  ultimately show ?thesis
    by (auto simp: reports_upsert)
qed

theorem upsert_frame_witness:
  "(''Acme'', ''2024'', ''Annual Total'', ''pop_total'')
     \<noteq> (''Acme'', ''2024'', ''Annual Total'', ''pop_male'')
   \<and> filter (\<lambda>r. pk r = (''Acme'', ''2024'', ''Annual Total'', ''pop_total''))
        (reports (snd (upsert_value_sql example_config filled_world ''2024-06-01 12:00:00''
                         ''Acme'' ''2024'' ''Annual Total'' ''pop_male'' ''11'' ''count'')))
      = [\<lparr>r_community = ''Acme'', r_year = ''2024'', r_period = ''Annual Total'',
          r_indicator_id = ''pop_total'', r_value = '''', r_unit = ''count'',
          r_last_updated = ''2024-03-01 09:00:05''\<rparr>]
   \<and> map pk (reports (snd (upsert_value_sql example_config filled_world
                              ''2024-06-01 12:00:00'' ''Acme'' ''2024'' ''Annual Total''
                              ''pop_male'' ''11'' ''count'')))
      = map pk (reports filled_world)"
  using upsert_frame [of "(''Acme'', ''2024'', ''Annual Total'', ''pop_total'')"
      "''Acme''" "''2024''" "''Annual Total''" "''pop_male''" example_config filled_world
      "''2024-06-01 12:00:00''" "''11''" "''count''"]
  by (simp add: example_config_def filled_world_def pk_def upsert_value_sql_def
      get_db_connection_def sync_to_google_background_def sheets_enabled_def)

section \<open>Review and export\<close>

lemma data_map_of_snoc:
  "data_map_of (rows @ [row]) = (data_map_of rows)(r_indicator_id row \<mapsto> row)"
  by (simp add: data_map_of_def)

lemma data_map_of_Nil: "data_map_of [] = Map.empty"
  by (simp add: data_map_of_def)

lemma scan_snoc:
  "scan (tbl @ [x]) c y p =
     scan tbl c y p @ (if r_community x = c \<and> r_year x = y \<and> r_period x = p then [x] else [])"
  by (simp add: scan_def)

lemma find_snoc:
  "find P (xs @ [x]) = (case find P xs of Some r \<Rightarrow> Some r | None \<Rightarrow> if P x then Some x else None)"
  by (induction xs) auto

lemma data_map_of_scan:
  "pk_unique tbl \<Longrightarrow>
   data_map_of (scan tbl c y p) i = find (\<lambda>r. pk r = (c, y, p, i)) tbl"
proof (induction tbl rule: rev_induct)
  case Nil
  then show ?case by (simp add: scan_def data_map_of_Nil)
next
  case (snoc x tbl)
  from snoc.prems have uniq: "pk_unique tbl" and fresh: "pk x \<notin> set (map pk tbl)"
    by (simp_all add: pk_unique_def)
  note IH = snoc.IH [OF uniq]
  show ?case
  proof (cases "pk x = (c, y, p, i)")
    case True
    with fresh have "(c, y, p, i) \<notin> set (map pk tbl)" by simp
    then have "find (\<lambda>r. pk r = (c, y, p, i)) tbl = None"
      by (force simp: find_None_iff)
    with True show ?thesis
      by (simp add: scan_snoc find_snoc data_map_of_snoc pk_def)
  next
    case False
    then show ?thesis
      using IH by (auto simp: scan_snoc find_snoc data_map_of_snoc pk_def split: option.splits)
  qed
qed

lemma concat_map_filter:
  "concat (map (\<lambda>s. map h (filter P (g s))) xs) = map h (filter P (concat (map g xs)))"
  by (induction xs) simp_all

lemma concat_map_if:
  "concat (map (\<lambda>x. if P x then [h x] else []) xs) = map h (filter P xs)"
  by (induction xs) simp_all

text \<open>
  Claim C3. With the database reachable and a table that satisfies its primary-key
  constraint, the rows of the review page are the indicators of the catalog, taken
  section by section in declaration order, that have a non-empty stored value for the
  community, year and period asked for (what \<open>get_value_sql\<close> returns for them is not
  the empty string, which is also its answer for a missing row), each as the name from the
  catalog, the stored value and the unit from the catalog.
\<close>

theorem review_order:
  assumes "db_available w" and "pk_unique (reports w)"
  shows "review cfg w community year period =
           Inr (map (\<lambda>ind. \<lparr>d_name = ind_name ind,
                             d_value = projr (get_value_sql w community year period (ind_id ind)),
                             d_unit = ind_unit ind\<rparr>)
                  (filter (\<lambda>ind. get_value_sql w community year period (ind_id ind) \<noteq> Inr '''')
                     (concat (map indicators (sections cfg)))))"
proof -
  let ?m = "data_map_of (scan (reports w) community year period)"
  let ?P = "\<lambda>ind. get_value_sql w community year period (ind_id ind) \<noteq> Inr ''''"
  let ?h = "\<lambda>ind. \<lparr>d_name = ind_name ind,
                     d_value = projr (get_value_sql w community year period (ind_id ind)),
                     d_unit = ind_unit ind\<rparr>"
  have row: "(case ?m (ind_id ind) of
                None \<Rightarrow> []
              | Some row \<Rightarrow>
                  (if r_value row \<noteq> ''''
                   then [\<lparr>d_name = ind_name ind, d_value = r_value row, d_unit = ind_unit ind\<rparr>]
                   else []))
             = (if ?P ind then [?h ind] else [])" for ind
    using assms
    by (simp add: data_map_of_scan get_value_sql_def get_db_connection_def split: option.splits)
  have "display_rows_of cfg ?m = map ?h (filter ?P (concat (map indicators (sections cfg))))"
    unfolding display_rows_of_def row concat_map_if by (rule concat_map_filter)
  with assms(1) show ?thesis
    by (simp add: review_def get_db_connection_def)
qed


theorem review_order_witness:
  "db_available filled_world \<and> pk_unique (reports filled_world)
   \<and> review example_config filled_world ''Acme'' ''2024'' ''Annual Total''
      = Inr [\<lparr>d_name = ''Male'', d_value = ''10'', d_unit = ''count''\<rparr>,
             \<lparr>d_name = ''Remarks'', d_value = ''ok'', d_unit = ''Text''\<rparr>]"
  using review_order [of filled_world example_config "''Acme''" "''2024''" "''Annual Total''"]
  by (simp add: example_config_def filled_world_def pk_unique_def pk_def get_value_sql_def
      get_db_connection_def)







section \<open>Sync notifier\<close>

text \<open>
  Claim C9, as stated, fails: with no \<open>google_sheets\<close> object in the configuration, a
  write in the active year succeeds and stores its row, and no sync thread is started.
\<close>

theorem sync_not_started_counterexample:
  "fst (upsert_value_sql example_config empty_world ''2024-06-01 12:00:00''
          ''Acme'' ''2024'' ''Annual Total'' ''pop_male'' ''10'' ''count'') = Inr ()
   \<and> reports (snd (upsert_value_sql example_config empty_world ''2024-06-01 12:00:00''
                      ''Acme'' ''2024'' ''Annual Total'' ''pop_male'' ''10'' ''count''))
      = [\<lparr>r_community = ''Acme'', r_year = ''2024'', r_period = ''Annual Total'',
          r_indicator_id = ''pop_male'', r_value = ''10'', r_unit = ''count'',
          r_last_updated = ''2024-06-01 12:00:00''\<rparr>]
   \<and> sync_threads (snd (upsert_value_sql example_config empty_world ''2024-06-01 12:00:00''
                           ''Acme'' ''2024'' ''Annual Total'' ''pop_male'' ''10'' ''count''))
      = sync_threads empty_world"
  by (simp add: upsert_value_sql_def get_db_connection_def sync_to_google_background_def
      sheets_enabled_def example_config_def empty_world_def)

lemma fst_save:
  "fst (save cfg w now c y p sid i v u) =
     (case fst (upsert_value_sql cfg w now c y p i v u) of
        Inl e \<Rightarrow> Inl e
      | Inr _ \<Rightarrow>
          (case select_section cfg sid of
             Inl e \<Rightarrow> Inl e
           | Inr section \<Rightarrow>
               (case find (\<lambda>d. ind_id d = i) (indicators section) of
                  None \<Rightarrow> Inl TypeError
                | Some ind_def \<Rightarrow>
                    Inr \<lparr>ctx_ind =
                           \<lparr>item_id = ind_id ind_def, item_name = ind_name ind_def,
                            item_unit = ind_unit ind_def, item_derived = ind_derived ind_def,
                            item_value = v\<rparr>,
                         ctx_community = c, ctx_year = y, ctx_period = p,
                         ctx_section_id = sid, ctx_editable = True, ctx_saved = True\<rparr>)))"
  by (cases "upsert_value_sql cfg w now c y p i v u")
    (simp add: save_def split: sum.splits option.splits)

lemma snd_save:
  "snd (save cfg w now c y p sid i v u) = snd (upsert_value_sql cfg w now c y p i v u)"
  by (cases "upsert_value_sql cfg w now c y p i v u")
    (simp add: save_def split: sum.splits option.splits)

lemma sync_body_failure_reports:
  "sync_body cfg (w\<lparr>reports := tbl\<rparr>) env = Inl e \<longleftrightarrow> sync_body cfg w env = Inl e"
  by (simp add: sync_body_def raising_def subscript_def get_db_connection_def
      split: option.splits sum.splits)

lemma upsert_ignores_sheets_api:
  "fst (upsert_value_sql cfg (w\<lparr>sheets_api := env\<rparr>) now c y p i v u)
     = fst (upsert_value_sql cfg w now c y p i v u)"
  "reports (snd (upsert_value_sql cfg (w\<lparr>sheets_api := env\<rparr>) now c y p i v u))
     = reports (snd (upsert_value_sql cfg w now c y p i v u))"
  by (simp_all add: fst_upsert reports_upsert)

lemma sync_threads_upsert:
  "sync_threads (snd (upsert_value_sql cfg w now c y p i v u))
     = (if y = active_year cfg \<and> db_available w \<and> sheets_enabled cfg
        then Suc (sync_threads w) else sync_threads w)"
  by (simp add: upsert_value_sql_def get_db_connection_def sync_to_google_background_def
      thread_start_def)

lemma length_printed_run_sync:
  "length (printed (snd (run_sync cfg w))) = Suc (length (printed w))"
  by (simp add: run_sync_def split: sum.splits)

lemma length_printed_upsert:
  "length (printed (snd (upsert_value_sql cfg w now c y p i v u)))
     = (if y = active_year cfg \<and> db_available w \<and> sheets_enabled cfg
        then Suc (length (printed w)) else length (printed w))"
  by (simp add: upsert_value_sql_def get_db_connection_def sync_to_google_background_def
      thread_start_def length_printed_run_sync)

lemma printed_upsert_failure:
  assumes "y = active_year cfg" and "db_available w" and "sheets_enabled cfg"
    and "sync_body cfg w (sheets_api w) = Inl e"
  shows "printed (snd (upsert_value_sql cfg w now c y p i v u)) = printed w @ [SyncError e]"
proof -
  let ?w1 = "w\<lparr>reports := insert_on_conflict
      \<lparr>r_community = c, r_year = y, r_period = p, r_indicator_id = i,
       r_value = v, r_unit = u, r_last_updated = now\<rparr> (reports w)\<rparr>"
  from assms(4) have "sync_body cfg ?w1 (sheets_api ?w1) = Inl e"
    by (simp add: sync_body_failure_reports)
  then have "printed (snd (run_sync cfg ?w1)) = printed w @ [SyncError e]"
    by (simp add: run_sync_def)
  with assms(1-3) show ?thesis
    by (simp add: upsert_value_sql_def get_db_connection_def sync_to_google_background_def
        thread_start_def)
qed

text \<open>
  Claim C9, amended. When the configuration has \<open>google_sheets.enabled\<close> true, a sync
  is started after every successful upsert and only then: one thread, and one printed
  line, for each write in the active year on a reachable database, none for a rejected or
  failed write; with the switch off or absent none is ever started. A failure inside the
  sync is caught and logged: the upsert that started it still succeeds, the value it wrote
  is read back, and the error line is printed. Neither the outcome of the upsert, nor the
  rows stored, nor the answer of \<open>save\<close> depends on how the spreadsheet service answers.
\<close>

theorem sync_trigger:
  "sync_threads (snd (upsert_value_sql cfg w now community year period indicator_id val unit))
     = (if year = active_year cfg \<and> db_available w \<and> sheets_enabled cfg
        then Suc (sync_threads w) else sync_threads w)
   \<and> length (printed (snd (upsert_value_sql cfg w now community year period indicator_id
                              val unit)))
     = (if year = active_year cfg \<and> db_available w \<and> sheets_enabled cfg
        then Suc (length (printed w)) else length (printed w))
   \<and> (year = active_year cfg \<and> db_available w \<and> sheets_enabled cfg
        \<and> sync_body cfg w (sheets_api w) = Inl e
      \<longrightarrow> fst (upsert_value_sql cfg w now community year period indicator_id val unit) = Inr ()
          \<and> get_value_sql
               (snd (upsert_value_sql cfg w now community year period indicator_id val unit))
               community year period indicator_id = Inr val
          \<and> printed (snd (upsert_value_sql cfg w now community year period indicator_id
                              val unit))
            = printed w @ [SyncError e])
   \<and> fst (run_sync cfg w) = Inr ()
   \<and> fst (upsert_value_sql cfg (w\<lparr>sheets_api := env\<rparr>) now community year period
             indicator_id val unit)
       = fst (upsert_value_sql cfg w now community year period indicator_id val unit)
   \<and> reports (snd (upsert_value_sql cfg (w\<lparr>sheets_api := env\<rparr>) now community year period
                      indicator_id val unit))
       = reports (snd (upsert_value_sql cfg w now community year period indicator_id val unit))
   \<and> fst (save cfg (w\<lparr>sheets_api := env\<rparr>) now community year period section_id
             indicator_id val unit)
       = fst (save cfg w now community year period section_id indicator_id val unit)
   \<and> reports (snd (save cfg (w\<lparr>sheets_api := env\<rparr>) now community year period section_id
                      indicator_id val unit))
       = reports (snd (save cfg w now community year period section_id indicator_id val unit))"
proof -
  let ?after = "snd (upsert_value_sql cfg w now community year period indicator_id val unit)"
  have caught: "fst (upsert_value_sql cfg w now community year period indicator_id val unit)
        = Inr ()
      \<and> get_value_sql ?after community year period indicator_id = Inr val
      \<and> printed ?after = printed w @ [SyncError e]"
    if "year = active_year cfg" and "db_available w" and "sheets_enabled cfg"
      and "sync_body cfg w (sheets_api w) = Inl e"
  proof -
    let ?new = "\<lparr>r_community = community, r_year = year, r_period = period,
                  r_indicator_id = indicator_id, r_value = val, r_unit = unit,
                  r_last_updated = now\<rparr>"
    have k: "pk ?new = (community, year, period, indicator_id)"
      by (simp add: pk_def)
    obtain r where "find (\<lambda>r. pk r = pk ?new) (insert_on_conflict ?new (reports w)) = Some r"
      and "r_value r = val"
      using find_insert_on_conflict [of ?new "reports w"] by auto
    with that(1,2) k
    have "get_value_sql ?after community year period indicator_id = Inr val"
      by (simp add: get_value_sql_def get_db_connection_def reports_upsert)
    moreover from that(1,2)
    have "fst (upsert_value_sql cfg w now community year period indicator_id val unit) = Inr ()"
      by (simp add: fst_upsert)
    moreover from that have "printed ?after = printed w @ [SyncError e]"
      by (rule printed_upsert_failure)
    ultimately show ?thesis by simp
  qed
  have "fst (save cfg (w\<lparr>sheets_api := env\<rparr>) now community year period section_id
             indicator_id val unit)
       = fst (save cfg w now community year period section_id indicator_id val unit)"
    by (simp add: fst_save upsert_ignores_sheets_api)
  moreover have "reports (snd (save cfg (w\<lparr>sheets_api := env\<rparr>) now community year period
         section_id indicator_id val unit))
       = reports (snd (save cfg w now community year period section_id indicator_id val unit))"
    by (simp add: snd_save upsert_ignores_sheets_api)
  moreover have "fst (run_sync cfg w) = Inr ()"
    by (simp add: run_sync_def split: sum.splits)
  ultimately show ?thesis
    using caught
    by (simp only: sync_threads_upsert length_printed_upsert upsert_ignores_sheets_api) blast
qed

theorem sync_trigger_witness:
  "''2024'' = active_year synced_config \<and> db_available refused_world
   \<and> sheets_enabled synced_config
   \<and> sync_body synced_config refused_world (sheets_api refused_world)
      = Inl (ExternalError ''invalid_grant'')
   \<and> fst (upsert_value_sql synced_config refused_world ''2024-06-01 12:00:00''
            ''Acme'' ''2024'' ''Annual Total'' ''pop_male'' ''10'' ''count'') = Inr ()
   \<and> get_value_sql
        (snd (upsert_value_sql synced_config refused_world ''2024-06-01 12:00:00''
                ''Acme'' ''2024'' ''Annual Total'' ''pop_male'' ''10'' ''count''))
        ''Acme'' ''2024'' ''Annual Total'' ''pop_male'' = Inr ''10''
   \<and> printed (snd (upsert_value_sql synced_config refused_world ''2024-06-01 12:00:00''
                      ''Acme'' ''2024'' ''Annual Total'' ''pop_male'' ''10'' ''count''))
      = [SyncError (ExternalError ''invalid_grant'')]
   \<and> sync_threads (snd (upsert_value_sql synced_config refused_world ''2024-06-01 12:00:00''
                           ''Acme'' ''2024'' ''Annual Total'' ''pop_male'' ''10'' ''count''))
      = 1
   \<and> sync_threads (snd (upsert_value_sql synced_config refused_world ''2024-06-01 12:00:00''
                           ''Acme'' ''2023'' ''Annual Total'' ''pop_male'' ''10'' ''count''))
      = 0
   \<and> printed (snd (upsert_value_sql synced_config refused_world ''2024-06-01 12:00:00''
                      ''Acme'' ''2023'' ''Annual Total'' ''pop_male'' ''10'' ''count''))
      = []
   \<and> printed (snd (upsert_value_sql synced_config empty_world ''2024-06-01 12:00:00''
                      ''Acme'' ''2024'' ''Annual Total'' ''pop_male'' ''10'' ''count''))
      = [SyncComplete]
   \<and> fst (save synced_config refused_world ''2024-06-01 12:00:00'' ''Acme'' ''2024''
            ''Annual Total'' ''pop'' ''pop_male'' ''10'' ''count'')
      = Inr \<lparr>ctx_ind =
               \<lparr>item_id = ''pop_male'', item_name = ''Male'', item_unit = ''count'',
                item_derived = False, item_value = ''10''\<rparr>,
             ctx_community = ''Acme'', ctx_year = ''2024'', ctx_period = ''Annual Total'',
             ctx_section_id = ''pop'', ctx_editable = True, ctx_saved = True\<rparr>"
  using sync_trigger [of synced_config refused_world "''2024-06-01 12:00:00''" "''Acme''"
      "''2024''" "''Annual Total''" "''pop_male''" "''10''" "''count''"
      "ExternalError ''invalid_grant''" sheets_ok "''pop''"]
    sync_trigger [of synced_config refused_world "''2024-06-01 12:00:00''" "''Acme''"
      "''2023''" "''Annual Total''" "''pop_male''" "''10''" "''count''"
      "ExternalError ''invalid_grant''" sheets_ok "''pop''"]
  by (simp add: synced_config_def example_config_def empty_world_def refused_world_def
      sheets_ok_def sheets_refusing_def sheets_enabled_def upsert_value_sql_def
      sync_to_google_background_def thread_start_def run_sync_def sync_body_def
      raising_def subscript_def get_db_connection_def get_value_sql_def pk_def
      fst_save select_section_def)

section \<open>Saving one field\<close>

text \<open>
  Claim C10. When the section chosen for the request has an indicator with the submitted
  id, and the upsert does not fail (the year is not the active one, or the database is
  reachable), \<open>save\<close> answers with that indicator carrying the submitted value, marked
  editable and saved. When the year is not the active one the state is untouched all the
  same, so the store still holds what it held.
\<close>

theorem save_response:
  assumes "select_section cfg section_id = Inr s"
    and "find (\<lambda>d. ind_id d = indicator_id) (indicators s) = Some ind_def"
    and "year \<noteq> active_year cfg \<or> db_available w"
  shows "fst (save cfg w now community year period section_id indicator_id val unit)
         = Inr \<lparr>ctx_ind =
                  \<lparr>item_id = ind_id ind_def, item_name = ind_name ind_def,
                   item_unit = ind_unit ind_def, item_derived = ind_derived ind_def,
                   item_value = val\<rparr>,
                ctx_community = community, ctx_year = year, ctx_period = period,
                ctx_section_id = section_id, ctx_editable = True, ctx_saved = True\<rparr>
       \<and> (year \<noteq> active_year cfg \<longrightarrow>
            snd (save cfg w now community year period section_id indicator_id val unit) = w)"
proof -
  from assms(3)
  have "fst (upsert_value_sql cfg w now community year period indicator_id val unit) = Inr ()"
    by (auto simp: fst_upsert)
  with assms(1,2) have response:
    "fst (save cfg w now community year period section_id indicator_id val unit)
       = Inr \<lparr>ctx_ind =
                \<lparr>item_id = ind_id ind_def, item_name = ind_name ind_def,
                 item_unit = ind_unit ind_def, item_derived = ind_derived ind_def,
                 item_value = val\<rparr>,
              ctx_community = community, ctx_year = year, ctx_period = period,
              ctx_section_id = section_id, ctx_editable = True, ctx_saved = True\<rparr>"
    by (simp add: fst_save)
  have "snd (save cfg w now community year period section_id indicator_id val unit) = w"
    if "year \<noteq> active_year cfg"
    using that by (simp add: snd_save upsert_value_sql_def)
  with response show ?thesis by blast
qed

theorem save_response_witness:
  "select_section example_config ''pop''
     = Inr \<lparr>sec_id = ''pop'', sec_name = ''Population'', sec_description = ''Head counts'',
            indicators =
              [\<lparr>ind_id = ''pop_male'', ind_name = ''Male'', ind_unit = ''count'',
                ind_derived = False\<rparr>,
               \<lparr>ind_id = ''pop_total'', ind_name = ''Total'', ind_unit = ''count'',
                ind_derived = True\<rparr>]\<rparr>
   \<and> ''2023'' \<noteq> active_year example_config
   \<and> fst (save example_config history_world ''2024-06-01 12:00:00'' ''Acme'' ''2023''
            ''Annual Total'' ''pop'' ''pop_male'' ''9'' ''count'')
      = Inr \<lparr>ctx_ind =
               \<lparr>item_id = ''pop_male'', item_name = ''Male'', item_unit = ''count'',
                item_derived = False, item_value = ''9''\<rparr>,
             ctx_community = ''Acme'', ctx_year = ''2023'', ctx_period = ''Annual Total'',
             ctx_section_id = ''pop'', ctx_editable = True, ctx_saved = True\<rparr>
   \<and> get_value_sql
        (snd (save example_config history_world ''2024-06-01 12:00:00'' ''Acme'' ''2023''
                ''Annual Total'' ''pop'' ''pop_male'' ''9'' ''count''))
        ''Acme'' ''2023'' ''Annual Total'' ''pop_male'' = Inr ''5''"
  using save_response [of example_config "''pop''"
      "\<lparr>sec_id = ''pop'', sec_name = ''Population'', sec_description = ''Head counts'',
            indicators =
              [\<lparr>ind_id = ''pop_male'', ind_name = ''Male'', ind_unit = ''count'',
                ind_derived = False\<rparr>,
               \<lparr>ind_id = ''pop_total'', ind_name = ''Total'', ind_unit = ''count'',
                ind_derived = True\<rparr>]\<rparr>"
      "''pop_male''"
      "\<lparr>ind_id = ''pop_male'', ind_name = ''Male'', ind_unit = ''count'',
                ind_derived = False\<rparr>"
      "''2023''" history_world "''2024-06-01 12:00:00''" "''Acme''" "''Annual Total''"
      "''9''" "''count''"]
  by (simp add: example_config_def history_world_def select_section_def get_value_sql_def
      get_db_connection_def pk_def)

text \<open>
  Claim C4 does not hold of the code. A request in the active year whose indicator id is
  not in the chosen section is first written to the store; then \<open>save\<close> raises
  \<open>TypeError\<close> while building the answer.
\<close>

theorem save_unknown_indicator_raises:
  "fst (save example_config empty_world ''2024-06-01 12:00:00'' ''Acme'' ''2024''
          ''Annual Total'' ''pop'' ''bogus'' ''7'' ''count'') = Inl TypeError
   \<and> reports (snd (save example_config empty_world ''2024-06-01 12:00:00'' ''Acme'' ''2024''
                      ''Annual Total'' ''pop'' ''bogus'' ''7'' ''count''))
      = [\<lparr>r_community = ''Acme'', r_year = ''2024'', r_period = ''Annual Total'',
          r_indicator_id = ''bogus'', r_value = ''7'', r_unit = ''count'',
          r_last_updated = ''2024-06-01 12:00:00''\<rparr>]"
  by (simp add: fst_save snd_save fst_upsert reports_upsert select_section_def
      example_config_def empty_world_def)

end
